theory Spec2Isabelle
  imports Main
begin

section \<open>DetectERR utilities: \<open>clang/lib/DetectERR/Utils.cpp\<close>\<close>

subsection \<open>Expressions as the utilities see them\<close>

text \<open>
  The utilities inspect a clang expression through a handful of queries only: the
  node's own type (\<open>getType\<close>), whether the node is a parenthesis, an implicit cast or a
  C-style cast (\<open>dyn_cast\<close>), and the operand of such a node (\<open>getSubExpr\<close>).
  Every node carries its own type, as a clang \<open>Expr\<close> does. The remaining
  constructors stand for nodes that none of the three wrappers match.
\<close>

datatype QualType =
    BuiltinType string
  | PointerType QualType

fun isPointerType :: "QualType \<Rightarrow> bool" where
  "isPointerType (PointerType _) = True"
| "isPointerType (BuiltinType _) = False"

datatype Expr =
    is_ParenExpr: ParenExpr (getType: QualType) (getSubExpr: Expr)
  | is_ImplicitCastExpr: ImplicitCastExpr (getType: QualType) (getSubExpr: Expr)
  | is_CStyleCastExpr: CStyleCastExpr (getType: QualType) (getSubExpr: Expr)
  | IntegerLiteral (getType: QualType) int
  | DeclRefExpr (getType: QualType) string
  | UnaryMinus (getType: QualType) Expr

text \<open>
  The value of an integer constant expression. Of an \<open>llvm::APSInt\<close> the utilities read
  \<open>getSExtValue()\<close> only, so the value is kept as that reading, beside its width and
  signedness.
\<close>

datatype APSInt = APSInt (BitWidth: nat) (IsUnsigned: bool) (getSExtValue: int)

text \<open>
  The constant evaluator of clang is not part of the utilities: its three queries are
  parameters, bundled as the \<open>ASTContext\<close> argument they are asked with.
  \<open>isNullPointerConstant\<close> is the query at \<open>Expr::NPC_ValueDependentIsNotNull\<close>.
\<close>

record ASTContext =
  isIntegerConstantExpr :: "Expr \<Rightarrow> bool"
  getIntegerConstantExpr :: "Expr \<Rightarrow> APSInt option"
  isNullPointerConstant :: "Expr \<Rightarrow> bool"

text \<open>
  Modelled from the spec: \<open>Expr::IgnoreParenImpCasts\<close> is clang's and its body is not
  among the sources. It is read, as its name says, as removing the parentheses and
  implicit casts that surround an expression, down to the first node that is neither;
  nodes of any other kind are left in place.
\<close>

fun IgnoreParenImpCasts :: "Expr \<Rightarrow> Expr" where
  "IgnoreParenImpCasts (ParenExpr _ E) = IgnoreParenImpCasts E"
| "IgnoreParenImpCasts (ImplicitCastExpr _ E) = IgnoreParenImpCasts E"
| "IgnoreParenImpCasts E = E"

lemma size_IgnoreParenImpCasts: "size (IgnoreParenImpCasts E) \<le> size E"
  by (induction E rule: IgnoreParenImpCasts.induct) simp_all

lemma size_getSubExpr_CStyleCast:
  "is_CStyleCastExpr E1 \<Longrightarrow> size (getSubExpr E1) < size E1"
  by (cases E1) simp_all

subsection \<open>\<open>removeAuxillaryCasts\<close>\<close>

text \<open>
  \<^verbatim>\<open>
  bool NeedStrip = true;
  while (NeedStrip) {
    NeedStrip = false;
    E = E->IgnoreParenImpCasts();
    if (const CStyleCastExpr *C = dyn_cast<CStyleCastExpr>(E)) {
      E = C->getSubExpr();
      NeedStrip = true;
    }
  }
  return E;
  \<close>
  The loop state is the flag and the current expression.
\<close>

function removeAuxillaryCasts_loop :: "bool \<Rightarrow> Expr \<Rightarrow> Expr" where
  "removeAuxillaryCasts_loop NeedStrip E =
     (if NeedStrip then
        (let E1 = IgnoreParenImpCasts E in
         if is_CStyleCastExpr E1
         then removeAuxillaryCasts_loop True (getSubExpr E1)
         else removeAuxillaryCasts_loop False E1)
      else E)"
  by pat_completeness auto

termination
proof (relation "measure (\<lambda>(NeedStrip, E). 2 * size E + (if NeedStrip then 1 else 0))")
  show "wf (measure (\<lambda>(NeedStrip, E). 2 * size E + (if NeedStrip then 1 else 0)))"
    by simp
next
  fix NeedStrip :: bool and E E1 :: Expr
  assume "NeedStrip" and E1: "E1 = IgnoreParenImpCasts E" and "is_CStyleCastExpr E1"
  then have "size (getSubExpr E1) < size E1"
    by (simp add: size_getSubExpr_CStyleCast)
  moreover have "size E1 \<le> size E"
    unfolding E1 by (rule size_IgnoreParenImpCasts)
  ultimately show "((True, getSubExpr E1), (NeedStrip, E))
      \<in> measure (\<lambda>(NeedStrip, E). 2 * size E + (if NeedStrip then 1 else 0))"
    using \<open>NeedStrip\<close> by simp
next
  fix NeedStrip :: bool and E E1 :: Expr
  assume "NeedStrip" and E1: "E1 = IgnoreParenImpCasts E"
  have "size E1 \<le> size E"
    unfolding E1 by (rule size_IgnoreParenImpCasts)
  then show "((False, E1), (NeedStrip, E))
      \<in> measure (\<lambda>(NeedStrip, E). 2 * size E + (if NeedStrip then 1 else 0))"
    using \<open>NeedStrip\<close> by simp
qed

definition removeAuxillaryCasts :: "Expr \<Rightarrow> Expr" where
  "removeAuxillaryCasts E = removeAuxillaryCasts_loop True E"

subsection \<open>\<open>isNULLExpr\<close> and \<open>isNegativeNumber\<close>\<close>

text \<open>
  \<^verbatim>\<open>
  QualType Typ = E->getType();
  E = removeAuxillaryCasts(E);
  return Typ->isPointerType() && E->isIntegerConstantExpr(C) &&
         E->isNullPointerConstant(C, Expr::NPC_ValueDependentIsNotNull);
  \<close>
\<close>

definition isNULLExpr :: "Expr \<Rightarrow> ASTContext \<Rightarrow> bool" where
  "isNULLExpr E C =
     (let Typ = getType E;
          E' = removeAuxillaryCasts E
      in isPointerType Typ \<and> isIntegerConstantExpr C E' \<and> isNullPointerConstant C E')"

text \<open>
  \<^verbatim>\<open>
  E = removeAuxillaryCasts(E);
  if (E->isIntegerConstantExpr(C)) {
    auto NewAPI = E->getIntegerConstantExpr(C);
    if (NewAPI.hasValue()) {
      return (NewAPI->getSExtValue() < 0);
    }
  }
  return false;
  \<close>
\<close>

definition isNegativeNumber :: "Expr \<Rightarrow> ASTContext \<Rightarrow> bool" where
  "isNegativeNumber E C =
     (let E' = removeAuxillaryCasts E in
      if isIntegerConstantExpr C E' then
        (case getIntegerConstantExpr C E' of
           Some NewAPI \<Rightarrow> getSExtValue NewAPI < 0
         | None \<Rightarrow> False)
      else False)"

text \<open>
  What the utilities are meant to compute, said directly: the expression with every
  surrounding parenthesis, implicit cast and C-style cast removed.
\<close>

fun stripParenCasts_spec :: "Expr \<Rightarrow> Expr" where
  "stripParenCasts_spec (ParenExpr _ E) = stripParenCasts_spec E"
| "stripParenCasts_spec (ImplicitCastExpr _ E) = stripParenCasts_spec E"
| "stripParenCasts_spec (CStyleCastExpr _ E) = stripParenCasts_spec E"
| "stripParenCasts_spec E = E"

text \<open>A small evaluator for closed examples: literals, and negated literals, are constants.\<close>

fun literalValue :: "Expr \<Rightarrow> APSInt option" where
  "literalValue (IntegerLiteral _ n) = Some (APSInt 32 False n)"
| "literalValue (UnaryMinus _ (IntegerLiteral _ n)) = Some (APSInt 32 False (- n))"
| "literalValue _ = None"

definition exampleContext :: ASTContext where
  "exampleContext =
     \<lparr> isIntegerConstantExpr = (\<lambda>E. literalValue E \<noteq> None),
       getIntegerConstantExpr = literalValue,
       isNullPointerConstant = (\<lambda>E. map_option getSExtValue (literalValue E) = Some 0) \<rparr>"

section \<open>Array bounds information: \<open>clang/include/clang/3C/AVarBoundsInfo.h\<close>\<close>

text \<open>
  The header declares the data of \<open>AVarBoundsInfo\<close> and the signatures of its
  operations; the bodies are in \<open>AVarBoundsInfo.cpp\<close>, which is not among the sources.
  The data below follows the header. Each operation is modelled from the specification's
  description of it, and says so.
\<close>

subsection \<open>Keys, priorities and bounds\<close>

type_synonym BoundsKey = nat

text \<open>
  \<^verbatim>\<open>
  enum BoundsPriority {
    Declared = 1, // Highest priority: These are declared by the user.
    Allocator,    // Second priority: allocator based bounds.
    FlowInferred, // Flow based bounds.
    Heuristics,   // Least-priority, based on heuristics.
    Invalid       // Invalid priority type.
  };
  \<close>
\<close>

datatype BoundsPriority = Declared | Allocator | FlowInferred | Heuristics | Invalid

fun enumValue :: "BoundsPriority \<Rightarrow> nat" where
  "enumValue Declared = 1"
| "enumValue Allocator = 2"
| "enumValue FlowInferred = 3"
| "enumValue Heuristics = 4"
| "enumValue Invalid = 5"

text \<open>
  A tier outranks another when it comes earlier in the enumeration: \<open>Declared\<close> is the
  highest priority and has the smallest value.
\<close>

definition outranks :: "BoundsPriority \<Rightarrow> BoundsPriority \<Rightarrow> bool" where
  "outranks P Q \<longleftrightarrow> enumValue P < enumValue Q"

text \<open>
  Modelled from the spec: \<open>ABounds\<close> is declared in \<open>clang/3C/ABounds.h\<close>, which is not
  among the sources. A bound is one of count, count plus one, byte count and range, over
  bounds keys, and two bounds are the same when tag and keys agree.
\<close>

datatype ABounds =
    CountBound BoundsKey
  | CountPlusOneBound BoundsKey
  | ByteBound BoundsKey
  | RangeBound BoundsKey BoundsKey

text \<open>
  Modelled from the spec: the header declares \<open>PrioList\<close>, the ``list of bounds priority
  in descending order of priorities'', without its initialiser. The order is
  \<open>Declared\<close>, \<open>Allocator\<close>, \<open>FlowInferred\<close>, \<open>Heuristics\<close>.
\<close>

definition PrioList :: "BoundsPriority list" where
  "PrioList = [Declared, Allocator, FlowInferred, Heuristics]"

subsection \<open>The state of \<open>AVarBoundsInfo\<close>\<close>

text \<open>
  The fields the modelled operations read and write.
  \<open>BInfo\<close> is \<open>std::map<BoundsKey, std::map<BoundsPriority, ABounds *>>\<close>: the outer map
  is kept as a list of entries, looked up with \<open>map_of\<close>, since
  \<open>keepHighestPriorityBounds\<close> visits every entry; the inner map is a partial function.
  The three \<open>BiMap\<close>s are kept in their forward direction, from what identifies a
  declaration to its key. \<open>ParamDeclType\<close> is the header's
  \<open>std::tuple<std::string, std::string, bool, unsigned>\<close>.
\<close>

type_synonym PrioBounds = "BoundsPriority \<rightharpoonup> ABounds"

type_synonym PersistentSourceLoc = "string \<times> nat \<times> nat"

type_synonym ParamDeclType = "string \<times> string \<times> bool \<times> nat"

type_synonym FuncDeclType = "string \<times> string \<times> bool"

record AVarBoundsInfo =
  BCount :: BoundsKey
  BInfo :: "(BoundsKey \<times> PrioBounds) list"
  DeclVarMap :: "PersistentSourceLoc \<rightharpoonup> BoundsKey"
  ParamDeclVarMap :: "ParamDeclType \<rightharpoonup> BoundsKey"
  FuncDeclVarMap :: "FuncDeclType \<rightharpoonup> BoundsKey"

text \<open>The entry of the store for key \<open>L\<close> at tier \<open>P\<close>, if there is one.\<close>

definition tierBound :: "AVarBoundsInfo \<Rightarrow> BoundsKey \<Rightarrow> BoundsPriority \<Rightarrow> ABounds option" where
  "tierBound BI L P = (case map_of (BInfo BI) L of None \<Rightarrow> None | Some PriBInfo \<Rightarrow> PriBInfo P)"

subsection \<open>\<open>getBounds\<close> and \<open>keepHighestPriorityBounds\<close>\<close>

text \<open>
  Modelled from the spec: the body of \<open>AVarBoundsInfo::getBounds\<close> is not among the
  sources. ``With no explicit priority, returns the bound from the highest tier that has
  an entry, in priority order Declared, Allocator, FlowInferred, Heuristics; with an
  explicit tier, returns exactly that tier's bound or none.'' No explicit priority is
  the default argument \<open>ReqP = Invalid\<close>. The out-parameter \<open>RetP\<close> of the declaration is
  left out: the specification does not describe it.
\<close>

fun firstBound :: "PrioBounds \<Rightarrow> BoundsPriority list \<Rightarrow> ABounds option" where
  "firstBound PriBInfo [] = None"
| "firstBound PriBInfo (P # Ps) =
     (case PriBInfo P of Some B \<Rightarrow> Some B | None \<Rightarrow> firstBound PriBInfo Ps)"

definition getBounds :: "AVarBoundsInfo \<Rightarrow> BoundsKey \<Rightarrow> BoundsPriority \<Rightarrow> ABounds option" where
  "getBounds BI L ReqP =
     (case map_of (BInfo BI) L of
        None \<Rightarrow> None
      | Some PriBInfo \<Rightarrow>
          if ReqP = Invalid then firstBound PriBInfo PrioList else PriBInfo ReqP)"

text \<open>
  Modelled from the spec: the body of \<open>AVarBoundsInfo::keepHighestPriorityBounds\<close> is
  not among the sources. ``For every key holding entries at multiple tiers, delete all
  but the highest-priority entry; returns whether any key changed.''
\<close>

definition presentTiers :: "PrioBounds \<Rightarrow> BoundsPriority list" where
  "presentTiers PriBInfo = filter (\<lambda>P. PriBInfo P \<noteq> None) PrioList"

definition keepHighest :: "PrioBounds \<Rightarrow> PrioBounds" where
  "keepHighest PriBInfo =
     (case presentTiers PriBInfo of
        P # _ # _ \<Rightarrow> (\<lambda>Q. if Q = P then PriBInfo Q else None)
      | _ \<Rightarrow> PriBInfo)"

definition holdsMultipleTiers :: "PrioBounds \<Rightarrow> bool" where
  "holdsMultipleTiers PriBInfo \<longleftrightarrow> 1 < length (presentTiers PriBInfo)"

definition keepHighestPriorityBounds :: "AVarBoundsInfo \<Rightarrow> bool \<times> AVarBoundsInfo" where
  "keepHighestPriorityBounds BI =
     (list_ex (\<lambda>(L, PriBInfo). holdsMultipleTiers PriBInfo) (BInfo BI),
      BI\<lparr>BInfo := map (\<lambda>(L, PriBInfo). (L, keepHighest PriBInfo)) (BInfo BI)\<rparr>)"

text \<open>A store for closed examples: key 7 has entries at two tiers, key 8 at one.\<close>

definition exampleStore :: AVarBoundsInfo where
  "exampleStore =
     \<lparr> BCount = 9,
       BInfo =
         [(7, [Allocator \<mapsto> CountBound 2, Heuristics \<mapsto> CountPlusOneBound 3]),
          (8, [FlowInferred \<mapsto> ByteBound 4])],
       DeclVarMap = Map.empty,
       ParamDeclVarMap = Map.empty,
       FuncDeclVarMap = Map.empty \<rparr>"

subsection \<open>The \<open>getVariable\<close> family\<close>

text \<open>
  The header declares four overloads, for \<open>VarDecl\<close>, \<open>ParmVarDecl\<close>, \<open>FieldDecl\<close> and
  \<open>FunctionDecl\<close>. A declaration is kept as what the maps identify it by: its
  persistent source location, or the tuple of \<open>ParamDeclVarMap\<close> or \<open>FuncDeclVarMap\<close>.
\<close>

datatype Decl =
    VarDecl PersistentSourceLoc
  | ParmVarDecl ParamDeclType
  | FieldDecl PersistentSourceLoc
  | FunctionDecl FuncDeclType

datatype failure = FatalFailure

text \<open>
  Modelled from the spec: the bodies of \<open>AVarBoundsInfo::getVariable\<close> are not among
  the sources. The family ``assign or retrieve a BoundsKey for a declaration'', keyed
  ``by persistent source location, or by a structural tuple of context, name, kind,
  index for parameters/returns''; key allocation ``is monotonic and never reused'', from
  the counter \<open>BCount\<close>, ``used to generate new bound keys''. By the header the
  functions ``will fatal fail if the provided Decl cannot have a BoundsKey'': which
  declarations can is \<open>isValidBoundVariable\<close>, declared in the header and taken as a
  parameter here.
\<close>

definition getVarKeyPSL :: "AVarBoundsInfo \<Rightarrow> PersistentSourceLoc \<Rightarrow> BoundsKey \<times> AVarBoundsInfo" where
  "getVarKeyPSL BI PSL =
     (case DeclVarMap BI PSL of
        Some K \<Rightarrow> (K, BI)
      | None \<Rightarrow>
          (let NK = BCount BI + 1
           in (NK, BI\<lparr>BCount := NK, DeclVarMap := (DeclVarMap BI)(PSL \<mapsto> NK)\<rparr>)))"

definition getParamKey :: "AVarBoundsInfo \<Rightarrow> ParamDeclType \<Rightarrow> BoundsKey \<times> AVarBoundsInfo" where
  "getParamKey BI ParamDecl =
     (case ParamDeclVarMap BI ParamDecl of
        Some K \<Rightarrow> (K, BI)
      | None \<Rightarrow>
          (let NK = BCount BI + 1
           in (NK, BI\<lparr>BCount := NK, ParamDeclVarMap := (ParamDeclVarMap BI)(ParamDecl \<mapsto> NK)\<rparr>)))"

definition getFuncKey :: "AVarBoundsInfo \<Rightarrow> FuncDeclType \<Rightarrow> BoundsKey \<times> AVarBoundsInfo" where
  "getFuncKey BI FuncDecl =
     (case FuncDeclVarMap BI FuncDecl of
        Some K \<Rightarrow> (K, BI)
      | None \<Rightarrow>
          (let NK = BCount BI + 1
           in (NK, BI\<lparr>BCount := NK, FuncDeclVarMap := (FuncDeclVarMap BI)(FuncDecl \<mapsto> NK)\<rparr>)))"

definition getVariable ::
  "(Decl \<Rightarrow> bool) \<Rightarrow> AVarBoundsInfo \<Rightarrow> Decl \<Rightarrow> failure + BoundsKey \<times> AVarBoundsInfo" where
  "getVariable isValidBoundVariable BI D =
     (if \<not> isValidBoundVariable D then Inl FatalFailure
      else
        (case D of
           VarDecl PSL \<Rightarrow> Inr (getVarKeyPSL BI PSL)
         | ParmVarDecl ParamDecl \<Rightarrow> Inr (getParamKey BI ParamDecl)
         | FieldDecl PSL \<Rightarrow> Inr (getVarKeyPSL BI PSL)
         | FunctionDecl FuncDecl \<Rightarrow> Inr (getFuncKey BI FuncDecl)))"

text \<open>The key a declaration is registered under in a state.\<close>

definition registeredAs :: "AVarBoundsInfo \<Rightarrow> Decl \<Rightarrow> BoundsKey \<Rightarrow> bool" where
  "registeredAs BI D K =
     (case D of
        VarDecl PSL \<Rightarrow> DeclVarMap BI PSL = Some K
      | ParmVarDecl ParamDecl \<Rightarrow> ParamDeclVarMap BI ParamDecl = Some K
      | FieldDecl PSL \<Rightarrow> DeclVarMap BI PSL = Some K
      | FunctionDecl FuncDecl \<Rightarrow> FuncDeclVarMap BI FuncDecl = Some K)"

text \<open>A parameter for closed examples: the first parameter of \<open>f\<close> in \<open>f.c\<close>.\<close>

definition exampleParam :: Decl where
  "exampleParam = ParmVarDecl (''f'', ''f.c'', False, 0)"

section \<open>Properties of the DetectERR utilities\<close>

declare removeAuxillaryCasts_loop.simps [simp del]

lemma IgnoreParenImpCasts_no_wrapper:
  "\<not> is_ParenExpr (IgnoreParenImpCasts E) \<and> \<not> is_ImplicitCastExpr (IgnoreParenImpCasts E)"
  by (induction E rule: IgnoreParenImpCasts.induct) simp_all

lemma stripParenCasts_spec_IgnoreParenImpCasts:
  "stripParenCasts_spec (IgnoreParenImpCasts E) = stripParenCasts_spec E"
  by (induction E rule: IgnoreParenImpCasts.induct) simp_all

lemma stripParenCasts_spec_bare:
  "\<not> is_ParenExpr E \<Longrightarrow> \<not> is_ImplicitCastExpr E \<Longrightarrow> \<not> is_CStyleCastExpr E
     \<Longrightarrow> stripParenCasts_spec E = E"
  by (cases E) simp_all

lemma stripParenCasts_spec_CStyleCast:
  "is_CStyleCastExpr E \<Longrightarrow> stripParenCasts_spec (getSubExpr E) = stripParenCasts_spec E"
  by (cases E) simp_all

text \<open>
  The loop with its flag computes the direct definition: each round removes the
  parentheses and implicit casts, then one C-style cast if there is one, and the round
  that finds none stops on an expression that has none of the three on top.
\<close>

lemma removeAuxillaryCasts_loop_spec:
  "removeAuxillaryCasts_loop NeedStrip E = (if NeedStrip then stripParenCasts_spec E else E)"
proof (induction NeedStrip E rule: removeAuxillaryCasts_loop.induct)
  case (1 NeedStrip E)
  show ?case
  proof (cases NeedStrip)
    case False
    then show ?thesis by (simp add: removeAuxillaryCasts_loop.simps)
  next
    case True
    define E1 where "E1 = IgnoreParenImpCasts E"
    have strip: "stripParenCasts_spec E1 = stripParenCasts_spec E"
      unfolding E1_def by (rule stripParenCasts_spec_IgnoreParenImpCasts)
    show ?thesis
    proof (cases "is_CStyleCastExpr E1")
      case cast: True
      have "removeAuxillaryCasts_loop NeedStrip E = removeAuxillaryCasts_loop True (getSubExpr E1)"
        using True cast by (subst removeAuxillaryCasts_loop.simps) (simp add: E1_def)
      also have "\<dots> = stripParenCasts_spec (getSubExpr E1)"
        using "1.IH"(1) [OF True E1_def cast] by simp
      also have "\<dots> = stripParenCasts_spec E"
        using cast strip by (simp add: stripParenCasts_spec_CStyleCast)
      finally show ?thesis using True by simp
    next
      case nocast: False
      have "removeAuxillaryCasts_loop NeedStrip E = removeAuxillaryCasts_loop False E1"
        using True nocast by (subst removeAuxillaryCasts_loop.simps) (simp add: E1_def)
      also have "\<dots> = E1"
        by (simp add: removeAuxillaryCasts_loop.simps)
      also have "\<dots> = stripParenCasts_spec E1"
        using nocast IgnoreParenImpCasts_no_wrapper [of E]
        by (simp add: E1_def stripParenCasts_spec_bare)
      finally show ?thesis using True strip by simp
    qed
  qed
qed

lemma removeAuxillaryCasts_spec: "removeAuxillaryCasts E = stripParenCasts_spec E"
  by (simp add: removeAuxillaryCasts_def removeAuxillaryCasts_loop_spec)

lemma stripParenCasts_spec_no_wrapper:
  "\<not> is_ParenExpr (stripParenCasts_spec E) \<and> \<not> is_ImplicitCastExpr (stripParenCasts_spec E)
     \<and> \<not> is_CStyleCastExpr (stripParenCasts_spec E)"
  by (induction E rule: stripParenCasts_spec.induct) simp_all

lemma stripParenCasts_spec_idem:
  "stripParenCasts_spec (stripParenCasts_spec E) = stripParenCasts_spec E"
  using stripParenCasts_spec_no_wrapper [of E] by (simp add: stripParenCasts_spec_bare)

text \<open>
  Claim C9. \<open>isNULLExpr E C\<close> holds exactly when the type of \<open>E\<close> as given, before
  anything is stripped, is a pointer type, and \<open>E\<close> with its parentheses, implicit casts
  and C-style casts removed is an integer constant expression and a null pointer
  constant. So it is false for every expression whose own type is not a pointer type,
  whatever the expression is underneath.
\<close>

theorem isNULLExpr_iff:
  "(isNULLExpr E C \<longleftrightarrow>
      isPointerType (getType E)
      \<and> isIntegerConstantExpr C (stripParenCasts_spec E)
      \<and> isNullPointerConstant C (stripParenCasts_spec E))
   \<and> (\<not> isPointerType (getType E) \<longrightarrow> \<not> isNULLExpr E C)"
  by (simp add: isNULLExpr_def Let_def removeAuxillaryCasts_spec)

text \<open>
  The literal \<open>0\<close> of type \<open>int\<close> is a constant and a null pointer constant, and is
  not a NULL expression; cast to \<open>void *\<close> it is one, and cast back to \<open>int\<close> it is
  not.
\<close>

theorem isNULLExpr_iff_witness:
  "\<not> isPointerType (getType (IntegerLiteral (BuiltinType ''int'') 0))
   \<and> isIntegerConstantExpr exampleContext (IntegerLiteral (BuiltinType ''int'') 0)
   \<and> isNullPointerConstant exampleContext (IntegerLiteral (BuiltinType ''int'') 0)
   \<and> \<not> isNULLExpr (IntegerLiteral (BuiltinType ''int'') 0) exampleContext
   \<and> isNULLExpr
        (ParenExpr (PointerType (BuiltinType ''void''))
          (CStyleCastExpr (PointerType (BuiltinType ''void''))
            (IntegerLiteral (BuiltinType ''int'') 0)))
        exampleContext
   \<and> \<not> isNULLExpr
        (CStyleCastExpr (BuiltinType ''int'')
          (CStyleCastExpr (PointerType (BuiltinType ''void''))
            (IntegerLiteral (BuiltinType ''int'') 0)))
        exampleContext"
  using isNULLExpr_iff [of "IntegerLiteral (BuiltinType ''int'') 0" exampleContext]
    isNULLExpr_iff [of "ParenExpr (PointerType (BuiltinType ''void''))
          (CStyleCastExpr (PointerType (BuiltinType ''void''))
            (IntegerLiteral (BuiltinType ''int'') 0))" exampleContext]
    isNULLExpr_iff [of "CStyleCastExpr (BuiltinType ''int'')
          (CStyleCastExpr (PointerType (BuiltinType ''void''))
            (IntegerLiteral (BuiltinType ''int'') 0))" exampleContext]
  by (simp add: exampleContext_def)

text \<open>
  Claim C10. \<open>isNegativeNumber E C\<close> holds exactly when \<open>E\<close> with its parentheses,
  implicit casts and C-style casts removed is an integer constant expression whose
  value, read sign-extended, is below zero; for an expression that is not constant the
  answer is \<open>False\<close>. \<open>removeAuxillaryCasts\<close> is idempotent: its result has no
  parenthesis, implicit cast or C-style cast on top, so a second application returns it
  unchanged.
\<close>

theorem isNegativeNumber_iff:
  "(isNegativeNumber E C \<longleftrightarrow>
      isIntegerConstantExpr C (stripParenCasts_spec E)
      \<and> (\<exists>v. getIntegerConstantExpr C (stripParenCasts_spec E) = Some v \<and> getSExtValue v < 0))
   \<and> (\<not> isIntegerConstantExpr C (stripParenCasts_spec E) \<longrightarrow> \<not> isNegativeNumber E C)
   \<and> removeAuxillaryCasts (removeAuxillaryCasts E) = removeAuxillaryCasts E
   \<and> \<not> is_ParenExpr (removeAuxillaryCasts E)
   \<and> \<not> is_ImplicitCastExpr (removeAuxillaryCasts E)
   \<and> \<not> is_CStyleCastExpr (removeAuxillaryCasts E)"
proof -
  have "isNegativeNumber E C \<longleftrightarrow>
      isIntegerConstantExpr C (stripParenCasts_spec E)
      \<and> (\<exists>v. getIntegerConstantExpr C (stripParenCasts_spec E) = Some v \<and> getSExtValue v < 0)"
    by (auto simp: isNegativeNumber_def Let_def removeAuxillaryCasts_spec split: option.splits)
  moreover have "removeAuxillaryCasts (removeAuxillaryCasts E) = removeAuxillaryCasts E"
    by (simp add: removeAuxillaryCasts_spec stripParenCasts_spec_idem)
  moreover have "\<not> is_ParenExpr (removeAuxillaryCasts E)
      \<and> \<not> is_ImplicitCastExpr (removeAuxillaryCasts E)
      \<and> \<not> is_CStyleCastExpr (removeAuxillaryCasts E)"
    unfolding removeAuxillaryCasts_spec by (rule stripParenCasts_spec_no_wrapper)
  ultimately show ?thesis by simp
qed

text \<open>
  \<open>((int)x)\<close> is not constant and is not a negative number; \<open>((int)-1)\<close>, with an
  implicit cast under the C-style cast, is one.
\<close>

theorem isNegativeNumber_iff_witness:
  "\<not> isIntegerConstantExpr exampleContext
       (stripParenCasts_spec
         (ParenExpr (BuiltinType ''int'')
           (CStyleCastExpr (BuiltinType ''int'') (DeclRefExpr (BuiltinType ''long'') ''x''))))
   \<and> \<not> isNegativeNumber
       (ParenExpr (BuiltinType ''int'')
         (CStyleCastExpr (BuiltinType ''int'') (DeclRefExpr (BuiltinType ''long'') ''x'')))
       exampleContext
   \<and> isNegativeNumber
       (ParenExpr (BuiltinType ''int'')
         (CStyleCastExpr (BuiltinType ''int'')
           (ImplicitCastExpr (BuiltinType ''int'')
             (UnaryMinus (BuiltinType ''int'') (IntegerLiteral (BuiltinType ''int'') 1)))))
       exampleContext
   \<and> removeAuxillaryCasts
       (ParenExpr (BuiltinType ''int'')
         (CStyleCastExpr (BuiltinType ''int'')
           (ImplicitCastExpr (BuiltinType ''int'')
             (UnaryMinus (BuiltinType ''int'') (IntegerLiteral (BuiltinType ''int'') 1)))))
     = UnaryMinus (BuiltinType ''int'') (IntegerLiteral (BuiltinType ''int'') 1)"
  using isNegativeNumber_iff [of
      "ParenExpr (BuiltinType ''int'')
         (CStyleCastExpr (BuiltinType ''int'') (DeclRefExpr (BuiltinType ''long'') ''x''))"
      exampleContext]
    isNegativeNumber_iff [of
      "ParenExpr (BuiltinType ''int'')
         (CStyleCastExpr (BuiltinType ''int'')
           (ImplicitCastExpr (BuiltinType ''int'')
             (UnaryMinus (BuiltinType ''int'') (IntegerLiteral (BuiltinType ''int'') 1))))"
      exampleContext]
  by (simp add: exampleContext_def removeAuxillaryCasts_spec)

section \<open>Properties of the bounds store\<close>

text \<open>Quantifying over the tiers that outrank a given one is a finite conjunction.\<close>

lemma all_outranks:
  "(\<forall>Q. outranks Q Declared \<longrightarrow> X Q) \<longleftrightarrow> True"
  "(\<forall>Q. outranks Q Allocator \<longrightarrow> X Q) \<longleftrightarrow> X Declared"
  "(\<forall>Q. outranks Q FlowInferred \<longrightarrow> X Q) \<longleftrightarrow> X Declared \<and> X Allocator"
  "(\<forall>Q. outranks Q Heuristics \<longrightarrow> X Q) \<longleftrightarrow> X Declared \<and> X Allocator \<and> X FlowInferred"
proof -
  have cases: "(\<forall>Q. Y Q) \<longleftrightarrow> Y Declared \<and> Y Allocator \<and> Y FlowInferred \<and> Y Heuristics \<and> Y Invalid"
    for Y
  proof
    assume r: "Y Declared \<and> Y Allocator \<and> Y FlowInferred \<and> Y Heuristics \<and> Y Invalid"
    show "\<forall>Q. Y Q"
    proof
      fix Q show "Y Q" using r by (cases Q) simp_all
    qed
  qed simp
  show "(\<forall>Q. outranks Q Declared \<longrightarrow> X Q) \<longleftrightarrow> True"
    by (subst cases) (simp add: outranks_def)
  show "(\<forall>Q. outranks Q Allocator \<longrightarrow> X Q) \<longleftrightarrow> X Declared"
    by (subst cases) (simp add: outranks_def)
  show "(\<forall>Q. outranks Q FlowInferred \<longrightarrow> X Q) \<longleftrightarrow> X Declared \<and> X Allocator"
    by (subst cases) (simp add: outranks_def)
  show "(\<forall>Q. outranks Q Heuristics \<longrightarrow> X Q) \<longleftrightarrow> X Declared \<and> X Allocator \<and> X FlowInferred"
    by (subst cases) (simp add: outranks_def)
qed

lemma firstBound_highest:
  "P \<in> set PrioList \<Longrightarrow> m P = Some B \<Longrightarrow> \<forall>Q. outranks Q P \<longrightarrow> m Q = None
     \<Longrightarrow> firstBound m PrioList = Some B"
  by (cases P) (simp_all add: all_outranks PrioList_def)

lemma firstBound_none:
  assumes "\<forall>P\<in>set PrioList. m P = None"
  shows "firstBound m PrioList = None"
  using assms by (simp add: PrioList_def)

lemma firstBound_some:
  assumes "firstBound m PrioList = Some B"
  shows "\<exists>P\<in>set PrioList. m P = Some B \<and> (\<forall>Q. outranks Q P \<longrightarrow> m Q = None)"
  using assms by (auto simp: all_outranks PrioList_def split: option.splits)

lemma keepHighest_tier:
  "P \<in> set PrioList \<Longrightarrow>
     keepHighest m P = (if \<forall>Q. outranks Q P \<longrightarrow> m Q = None then m P else None)"
  by (cases P; cases "m Declared"; cases "m Allocator"; cases "m FlowInferred"; cases "m Heuristics")
     (simp_all add: all_outranks keepHighest_def presentTiers_def PrioList_def)

lemma firstBound_keepHighest:
  "firstBound (keepHighest m) PrioList = firstBound m PrioList"
  by (cases "m Declared"; cases "m Allocator"; cases "m FlowInferred"; cases "m Heuristics")
     (simp_all add: keepHighest_def presentTiers_def PrioList_def)

lemma map_of_keepHighest:
  "map_of (map (\<lambda>(L, PriBInfo). (L, keepHighest PriBInfo)) xs) K = map_option keepHighest (map_of xs K)"
  by (simp add: map_of_map)

text \<open>
  Claim C1. For every key \<open>K\<close>, \<open>getBounds\<close> with no explicit priority returns the bound
  of the highest-priority tier that has an entry for \<open>K\<close>, in the order \<open>Declared\<close>,
  \<open>Allocator\<close>, \<open>FlowInferred\<close>, \<open>Heuristics\<close>: it returns a tier's bound when no tier
  that outranks it has an entry, returns nothing when no tier has one, and whatever it
  returns is the bound of a tier that no present tier outranks. With an explicit tier it
  returns that tier's entry or nothing. \<open>keepHighestPriorityBounds\<close> does not change
  what \<open>getBounds\<close> returns with no explicit priority, and after it a tier has an entry
  only if no tier that outranked it had one.
\<close>

theorem getBounds_highest_priority:
  "(\<forall>P B. P \<in> set PrioList \<longrightarrow> tierBound BI K P = Some B
       \<longrightarrow> (\<forall>Q. outranks Q P \<longrightarrow> tierBound BI K Q = None)
       \<longrightarrow> getBounds BI K Invalid = Some B)
   \<and> ((\<forall>P\<in>set PrioList. tierBound BI K P = None) \<longrightarrow> getBounds BI K Invalid = None)
   \<and> (\<forall>B. getBounds BI K Invalid = Some B
       \<longrightarrow> (\<exists>P\<in>set PrioList. tierBound BI K P = Some B
             \<and> (\<forall>Q. outranks Q P \<longrightarrow> tierBound BI K Q = None)))
   \<and> (\<forall>P. P \<noteq> Invalid \<longrightarrow> getBounds BI K P = tierBound BI K P)
   \<and> getBounds (snd (keepHighestPriorityBounds BI)) K Invalid = getBounds BI K Invalid
   \<and> (\<forall>P\<in>set PrioList.
         tierBound (snd (keepHighestPriorityBounds BI)) K P
           = (if \<forall>Q. outranks Q P \<longrightarrow> tierBound BI K Q = None then tierBound BI K P else None))"
proof (cases "map_of (BInfo BI) K")
  case None
  then show ?thesis
    by (simp add: tierBound_def getBounds_def keepHighestPriorityBounds_def map_of_keepHighest)
next
  case (Some m)
  have tier: "tierBound BI K P = m P" for P
    using Some by (simp add: tierBound_def)
  have get: "getBounds BI K Invalid = firstBound m PrioList"
    using Some by (simp add: getBounds_def)
  have tier': "tierBound (snd (keepHighestPriorityBounds BI)) K P = keepHighest m P" for P
    using Some by (simp add: tierBound_def keepHighestPriorityBounds_def map_of_keepHighest)
  have get': "getBounds (snd (keepHighestPriorityBounds BI)) K Invalid
      = firstBound (keepHighest m) PrioList"
    using Some by (simp add: getBounds_def keepHighestPriorityBounds_def map_of_keepHighest)
  have 1: "\<forall>P B. P \<in> set PrioList \<longrightarrow> tierBound BI K P = Some B
       \<longrightarrow> (\<forall>Q. outranks Q P \<longrightarrow> tierBound BI K Q = None)
       \<longrightarrow> getBounds BI K Invalid = Some B"
    unfolding tier get using firstBound_highest by blast
  have 2: "(\<forall>P\<in>set PrioList. tierBound BI K P = None) \<longrightarrow> getBounds BI K Invalid = None"
    unfolding tier get using firstBound_none by blast
  have 3: "\<forall>B. getBounds BI K Invalid = Some B
       \<longrightarrow> (\<exists>P\<in>set PrioList. tierBound BI K P = Some B
             \<and> (\<forall>Q. outranks Q P \<longrightarrow> tierBound BI K Q = None))"
    unfolding tier get using firstBound_some by blast
  have 4: "\<forall>P. P \<noteq> Invalid \<longrightarrow> getBounds BI K P = tierBound BI K P"
    using Some by (simp add: getBounds_def tierBound_def)
  have 5: "getBounds (snd (keepHighestPriorityBounds BI)) K Invalid = getBounds BI K Invalid"
    unfolding get get' by (rule firstBound_keepHighest)
  have 6: "\<forall>P\<in>set PrioList.
         tierBound (snd (keepHighestPriorityBounds BI)) K P
           = (if \<forall>Q. outranks Q P \<longrightarrow> tierBound BI K Q = None then tierBound BI K P else None)"
    unfolding tier tier' using keepHighest_tier by blast
  from 1 2 3 4 5 6 show ?thesis by blast
qed

text \<open>
  In the example store key 7 has an \<open>Allocator\<close> and a \<open>Heuristics\<close> entry: the first is
  returned, the second only on request, and not at all once only the highest is kept.
\<close>

theorem getBounds_highest_priority_witness:
  "Allocator \<in> set PrioList
   \<and> tierBound exampleStore 7 Allocator = Some (CountBound 2)
   \<and> tierBound exampleStore 7 Declared = None
   \<and> outranks Allocator Heuristics
   \<and> tierBound exampleStore 7 Heuristics = Some (CountPlusOneBound 3)
   \<and> getBounds exampleStore 7 Invalid = Some (CountBound 2)
   \<and> getBounds exampleStore 7 Heuristics = Some (CountPlusOneBound 3)
   \<and> getBounds exampleStore 7 Declared = None
   \<and> fst (keepHighestPriorityBounds exampleStore)
   \<and> getBounds (snd (keepHighestPriorityBounds exampleStore)) 7 Invalid = Some (CountBound 2)
   \<and> tierBound (snd (keepHighestPriorityBounds exampleStore)) 7 Heuristics = None"
proof -
  have tiers: "Allocator \<in> set PrioList" "Heuristics \<in> set PrioList"
    by (simp_all add: PrioList_def)
  have entry: "tierBound exampleStore 7 Allocator = Some (CountBound 2)"
    "tierBound exampleStore 7 Heuristics = Some (CountPlusOneBound 3)"
    by (simp_all add: tierBound_def exampleStore_def)
  have top: "\<forall>Q. outranks Q Allocator \<longrightarrow> tierBound exampleStore 7 Q = None"
    by (simp add: all_outranks tierBound_def exampleStore_def)
  have lower: "\<not> (\<forall>Q. outranks Q Heuristics \<longrightarrow> tierBound exampleStore 7 Q = None)"
    by (simp add: all_outranks tierBound_def exampleStore_def)
  note inst = getBounds_highest_priority [of exampleStore 7]
  have "getBounds exampleStore 7 Invalid = Some (CountBound 2)"
    using inst tiers(1) entry(1) top by blast
  moreover have "getBounds exampleStore 7 Heuristics = Some (CountPlusOneBound 3)"
    using inst entry(2) by simp
  moreover have "getBounds exampleStore 7 Declared = None"
    using inst top by (simp add: all_outranks)
  moreover have "getBounds (snd (keepHighestPriorityBounds exampleStore)) 7 Invalid
      = Some (CountBound 2)"
    using inst calculation(1) by simp
  moreover have "tierBound (snd (keepHighestPriorityBounds exampleStore)) 7 Heuristics = None"
    using inst tiers(2) lower by meson
  moreover have "fst (keepHighestPriorityBounds exampleStore)"
    by (simp add: keepHighestPriorityBounds_def exampleStore_def holdsMultipleTiers_def
        presentTiers_def PrioList_def)
  moreover have "tierBound exampleStore 7 Declared = None" "outranks Allocator Heuristics"
    by (simp_all add: tierBound_def exampleStore_def outranks_def)
  ultimately show ?thesis using tiers entry by simp
qed

section \<open>Properties of the \<open>getVariable\<close> family\<close>

lemma getVarKeyPSL_found:
  "getVarKeyPSL BI PSL = (K, BI') \<Longrightarrow> DeclVarMap BI' PSL = Some K"
  by (auto simp: getVarKeyPSL_def Let_def split: option.splits)

lemma getParamKey_found:
  "getParamKey BI PD = (K, BI') \<Longrightarrow> ParamDeclVarMap BI' PD = Some K"
  by (auto simp: getParamKey_def Let_def split: option.splits)

lemma getFuncKey_found:
  "getFuncKey BI FD = (K, BI') \<Longrightarrow> FuncDeclVarMap BI' FD = Some K"
  by (auto simp: getFuncKey_def Let_def split: option.splits)

lemma getVariable_registered:
  assumes "getVariable V BI D = Inr (K, BI')"
  shows "V D \<and> registeredAs BI' D K"
  using assms
  by (auto simp: getVariable_def registeredAs_def getVarKeyPSL_found getParamKey_found
      getFuncKey_found split: if_splits Decl.splits)

lemma getVariable_lookup:
  assumes "V D" and "registeredAs BI D K"
  shows "getVariable V BI D = Inr (K, BI)"
  using assms
  by (auto simp: getVariable_def registeredAs_def getVarKeyPSL_def getParamKey_def
      getFuncKey_def split: Decl.splits)

lemma getVarKeyPSL_keeps:
  "getVarKeyPSL BI PSL = (K, BI') \<Longrightarrow>
     (DeclVarMap BI x = Some k \<longrightarrow> DeclVarMap BI' x = Some k)
     \<and> ParamDeclVarMap BI' = ParamDeclVarMap BI \<and> FuncDeclVarMap BI' = FuncDeclVarMap BI"
  by (auto simp: getVarKeyPSL_def Let_def split: option.splits)

lemma getParamKey_keeps:
  "getParamKey BI PD = (K, BI') \<Longrightarrow>
     (ParamDeclVarMap BI x = Some k \<longrightarrow> ParamDeclVarMap BI' x = Some k)
     \<and> DeclVarMap BI' = DeclVarMap BI \<and> FuncDeclVarMap BI' = FuncDeclVarMap BI"
  by (auto simp: getParamKey_def Let_def split: option.splits)

lemma getFuncKey_keeps:
  "getFuncKey BI FD = (K, BI') \<Longrightarrow>
     (FuncDeclVarMap BI x = Some k \<longrightarrow> FuncDeclVarMap BI' x = Some k)
     \<and> DeclVarMap BI' = DeclVarMap BI \<and> ParamDeclVarMap BI' = ParamDeclVarMap BI"
  by (auto simp: getFuncKey_def Let_def split: option.splits)

lemma getVariable_keeps:
  assumes "getVariable V BI D2 = Inr (K2, BI2)" and "registeredAs BI D K"
  shows "registeredAs BI2 D K"
proof (cases D2)
  case (VarDecl PSL)
  with assms(1) have "getVarKeyPSL BI PSL = (K2, BI2)"
    by (simp add: getVariable_def split: if_splits)
  from getVarKeyPSL_keeps [OF this] assms(2) show ?thesis
    by (cases D) (simp_all add: registeredAs_def)
next
  case (ParmVarDecl PD)
  with assms(1) have "getParamKey BI PD = (K2, BI2)"
    by (simp add: getVariable_def split: if_splits)
  from getParamKey_keeps [OF this] assms(2) show ?thesis
    by (cases D) (simp_all add: registeredAs_def)
next
  case (FieldDecl PSL)
  with assms(1) have "getVarKeyPSL BI PSL = (K2, BI2)"
    by (simp add: getVariable_def split: if_splits)
  from getVarKeyPSL_keeps [OF this] assms(2) show ?thesis
    by (cases D) (simp_all add: registeredAs_def)
next
  case (FunctionDecl FD)
  with assms(1) have "getFuncKey BI FD = (K2, BI2)"
    by (simp add: getVariable_def split: if_splits)
  from getFuncKey_keeps [OF this] assms(2) show ?thesis
    by (cases D) (simp_all add: registeredAs_def)
qed

text \<open>
  Claim C7. For every declaration \<open>D\<close> that can carry a bounds key, \<open>getVariable\<close>
  called twice returns the same key both times, whether \<open>D\<close> is keyed by its persistent
  source location or by the tuple of a parameter or a function: the second call finds
  the key of the first and changes nothing, and so does a call after any other
  declaration was looked up in between.
\<close>

theorem getVariable_stable:
  assumes "getVariable V BI D = Inr (K, BI')"
  shows "getVariable V BI' D = Inr (K, BI')
    \<and> (\<forall>D2 K2 BI2. getVariable V BI' D2 = Inr (K2, BI2) \<longrightarrow> getVariable V BI2 D = Inr (K, BI2))"
proof -
  from getVariable_registered [OF assms]
  have valid: "V D" and reg: "registeredAs BI' D K"
    by simp_all
  have again: "getVariable V BI' D = Inr (K, BI')"
    using valid reg by (rule getVariable_lookup)
  have later: "getVariable V BI2 D = Inr (K, BI2)"
    if "getVariable V BI' D2 = Inr (K2, BI2)" for D2 K2 BI2
    using valid getVariable_keeps [OF that reg] by (rule getVariable_lookup)
  from again later show ?thesis by blast
qed

text \<open>
  A parameter looked up in the example store gets the fresh key 10; it keeps it when
  looked up again, and when a variable is registered, under key 11, in between.
\<close>

theorem getVariable_stable_witness:
  "getVariable (\<lambda>D. True) exampleStore exampleParam
     = Inr (10, exampleStore\<lparr>BCount := 10,
                  ParamDeclVarMap := [(''f'', ''f.c'', False, 0) \<mapsto> 10]\<rparr>)
   \<and> getVariable (\<lambda>D. True)
        (exampleStore\<lparr>BCount := 10, ParamDeclVarMap := [(''f'', ''f.c'', False, 0) \<mapsto> 10]\<rparr>)
        exampleParam
     = Inr (10, exampleStore\<lparr>BCount := 10,
                  ParamDeclVarMap := [(''f'', ''f.c'', False, 0) \<mapsto> 10]\<rparr>)
   \<and> getVariable (\<lambda>D. True)
        (exampleStore\<lparr>BCount := 10, ParamDeclVarMap := [(''f'', ''f.c'', False, 0) \<mapsto> 10]\<rparr>)
        (VarDecl (''f.c'', 3, 5))
     = Inr (11, exampleStore\<lparr>BCount := 11,
                  ParamDeclVarMap := [(''f'', ''f.c'', False, 0) \<mapsto> 10],
                  DeclVarMap := [(''f.c'', 3, 5) \<mapsto> 11]\<rparr>)
   \<and> getVariable (\<lambda>D. True)
        (exampleStore\<lparr>BCount := 11,
                  ParamDeclVarMap := [(''f'', ''f.c'', False, 0) \<mapsto> 10],
                  DeclVarMap := [(''f.c'', 3, 5) \<mapsto> 11]\<rparr>)
        exampleParam
     = Inr (10, exampleStore\<lparr>BCount := 11,
                  ParamDeclVarMap := [(''f'', ''f.c'', False, 0) \<mapsto> 10],
                  DeclVarMap := [(''f.c'', 3, 5) \<mapsto> 11]\<rparr>)"
proof -
  define S1 where "S1 = exampleStore\<lparr>BCount := 10,
      ParamDeclVarMap := [(''f'', ''f.c'', False, 0) \<mapsto> 10]\<rparr>"
  define S2 where "S2 = exampleStore\<lparr>BCount := 11,
      ParamDeclVarMap := [(''f'', ''f.c'', False, 0) \<mapsto> 10],
      DeclVarMap := [(''f.c'', 3, 5) \<mapsto> 11]\<rparr>"
  have first: "getVariable (\<lambda>D. True) exampleStore exampleParam = Inr (10, S1)"
    by (simp add: S1_def getVariable_def getParamKey_def exampleParam_def exampleStore_def)
  have other: "getVariable (\<lambda>D. True) S1 (VarDecl (''f.c'', 3, 5)) = Inr (11, S2)"
    by (simp add: S1_def S2_def getVariable_def getVarKeyPSL_def exampleStore_def)
  from getVariable_stable [OF first]
  have again: "getVariable (\<lambda>D. True) S1 exampleParam = Inr (10, S1)"
    and later: "\<forall>D2 K2 BI2. getVariable (\<lambda>D. True) S1 D2 = Inr (K2, BI2)
        \<longrightarrow> getVariable (\<lambda>D. True) BI2 exampleParam = Inr (10, BI2)"
    by blast+
  from later other have "getVariable (\<lambda>D. True) S2 exampleParam = Inr (10, S2)"
    by blast
  with first again other show ?thesis
    unfolding S1_def S2_def by simp
qed

end
